theory Spec2Isabelle
  imports Complex_Main "HOL-Library.AList"
begin

section \<open>Data model\<close>

text \<open>
  A cell of a table is missing (pandas' NaN/None), a number or a text. Numbers are exact
  rationals: the arithmetic of the pipeline (sum, mean, quotient) is modelled without
  floating-point rounding.
\<close>

datatype cell = Null | Num rat | Str string

text \<open>
  A row is what \<^verbatim>\<open>row['Sales']\<close> reads: cells addressed by column label, kept in
  column order. A frame is its list of column labels and its rows in order.
\<close>

type_synonym row = "(string \<times> cell) list"

record dataframe =
  columns :: "string list"
  rows :: "row list"

datatype error =
    KeyError string
  | TypeError
  | ZeroDivisionError
  | NameError string
  | UnboundLocalError string
  | RequestException string

text \<open>Every row of a well-formed frame carries exactly the frame's columns, each once.\<close>

definition wf_frame :: "dataframe \<Rightarrow> bool" where
  "wf_frame df \<longleftrightarrow>
     distinct (columns df) \<and> list_all (\<lambda>r. map fst r = columns df) (rows df)"

section \<open>The pandas operations the program calls\<close>

text \<open>\<^verbatim>\<open>row[c]\<close>: the cell under label \<open>c\<close>; a label the row lacks raises KeyError.\<close>

definition row_get :: "row \<Rightarrow> string \<Rightarrow> error + cell" where
  "row_get r c = (case map_of r c of None \<Rightarrow> Inl (KeyError c) | Some v \<Rightarrow> Inr v)"

text \<open>The cell under a label, read as missing where the row has no such label.\<close>

definition cell_of :: "row \<Rightarrow> string \<Rightarrow> cell" where
  "cell_of r c = (case map_of r c of None \<Rightarrow> Null | Some v \<Rightarrow> v)"

text \<open>\<^verbatim>\<open>df[c]\<close>: the column as a list of cells; KeyError when the frame has no such column.\<close>

definition getitem :: "dataframe \<Rightarrow> string \<Rightarrow> error + cell list" where
  "getitem df c =
     (if c \<in> set (columns df) then Inr (map (\<lambda>r. cell_of r c) (rows df))
      else Inl (KeyError c))"

text \<open>
  \<^verbatim>\<open>df[c] = values\<close>: an existing column is overwritten where it stands, a new one is
  appended as the last column. This changes the frame object itself.
\<close>

definition setitem :: "dataframe \<Rightarrow> string \<Rightarrow> cell list \<Rightarrow> dataframe" where
  "setitem df c vs =
     \<lparr> columns = (if c \<in> set (columns df) then columns df else columns df @ [c]),
       rows = map (\<lambda>(r, v). AList.update c v r) (zip (rows df) vs) \<rparr>"

text \<open>\<^verbatim>\<open>series.fillna(v)\<close>: every missing cell becomes \<open>v\<close>.\<close>

definition fillna :: "cell \<Rightarrow> cell list \<Rightarrow> cell list" where
  "fillna v s = map (\<lambda>c. if c = Null then v else c) s"

text \<open>
  \<^verbatim>\<open>x >= 0\<close> on one cell: a missing value compares False, a text against a number
  raises TypeError.
\<close>

fun ge_zero :: "cell \<Rightarrow> error + bool" where
  "ge_zero Null = Inr False"
| "ge_zero (Num q) = Inr (0 \<le> q)"
| "ge_zero (Str s) = Inl TypeError"

text \<open>Results of a cell-wise operation, stopping at the first error.\<close>

fun collect :: "(error + 'a) list \<Rightarrow> error + 'a list" where
  "collect [] = Inr []"
| "collect (x # xs) =
     (case x of
        Inl e \<Rightarrow> Inl e
      | Inr v \<Rightarrow> (case collect xs of Inl e \<Rightarrow> Inl e | Inr vs \<Rightarrow> Inr (v # vs)))"

text \<open>\<^verbatim>\<open>series >= 0\<close>: the boolean mask.\<close>

definition series_ge_zero :: "cell list \<Rightarrow> error + bool list" where
  "series_ge_zero s = collect (map ge_zero s)"

text \<open>\<^verbatim>\<open>df[mask]\<close>: a new frame with the rows whose mask entry is True.\<close>

definition boolean_index :: "dataframe \<Rightarrow> bool list \<Rightarrow> dataframe" where
  "boolean_index df keep =
     \<lparr> columns = columns df, rows = map fst (filter snd (zip (rows df) keep)) \<rparr>"

section \<open>The Cleaner\<close>

text \<open>
  \<^verbatim>\<open>clean_data(df)\<close>. The result is a pair: what the call returns (or the error it
  raises), and the caller's frame object as the call leaves it. The assignment
  \<^verbatim>\<open>df['Sales'] = ...\<close> writes into the caller's object; \<^verbatim>\<open>df = df[...]\<close> only
  rebinds the local name to a new frame.
\<close>

definition clean_data :: "dataframe \<Rightarrow> (error + dataframe) \<times> dataframe" where
  "clean_data df =
     (if ''Sales'' \<in> set (columns df) then
        (case getitem df ''Sales'' of
           Inl e \<Rightarrow> (Inl e, df)
         | Inr s \<Rightarrow>
             let df1 = setitem df ''Sales'' (fillna (Num 0) s) in
             (case getitem df1 ''Sales'' of
                Inl e \<Rightarrow> (Inl e, df1)
              | Inr s1 \<Rightarrow>
                  (case series_ge_zero s1 of
                     Inl e \<Rightarrow> (Inl e, df1)
                   | Inr keep \<Rightarrow> (Inr (boolean_index df1 keep), df1))))
      else (Inr df, df))"

section \<open>The Aggregator\<close>

text \<open>The cells of a row under the key columns: its group key.\<close>

definition key_cells :: "string list \<Rightarrow> row \<Rightarrow> cell list" where
  "key_cells ks r = map (cell_of r) ks"

text \<open>pandas' \<^verbatim>\<open>sum\<close> and \<^verbatim>\<open>mean\<close> skip missing values: they run over the numbers of a series.\<close>

fun numbers :: "cell list \<Rightarrow> rat list" where
  "numbers [] = []"
| "numbers (Num q # cs) = q # numbers cs"
| "numbers (c # cs) = numbers cs"

definition agg_sum :: "cell list \<Rightarrow> cell" where
  "agg_sum cs = Num (sum_list (numbers cs))"

definition agg_mean :: "cell list \<Rightarrow> cell" where
  "agg_mean cs =
     (if numbers cs = [] then Null
      else Num (sum_list (numbers cs) / of_nat (length (numbers cs))))"

fun is_text :: "cell \<Rightarrow> bool" where
  "is_text (Str s) = True"
| "is_text c = False"

text \<open>
  \<^verbatim>\<open>df.groupby(ks)[c].agg(['mean', 'sum']).reset_index()\<close>: one row per group key, with
  the key cells, the mean and the sum of column \<open>c\<close> over the group. Rows with a missing
  key cell belong to no group (pandas drops them). A missing key or value column raises
  KeyError, a text among the grouped values TypeError. pandas lists the groups sorted by
  key; here they stand in an order of their own, each once, which no caller observes:
  the only use of the table is the left join below, which reads it by key.
\<close>

definition groupby_agg :: "dataframe \<Rightarrow> string list \<Rightarrow> string \<Rightarrow> error + dataframe" where
  "groupby_agg df ks c =
     (case find (\<lambda>k. k \<notin> set (columns df)) ks of
        Some k \<Rightarrow> Inl (KeyError k)
      | None \<Rightarrow>
          if c \<notin> set (columns df) then Inl (KeyError c)
          else
            let grouped = filter (\<lambda>r. Null \<notin> set (key_cells ks r)) (rows df);
                gkeys = remdups (map (key_cells ks) grouped);
                series = (\<lambda>k. map (\<lambda>r. cell_of r c)
                                  (filter (\<lambda>r. key_cells ks r = k) grouped))
            in if list_ex (\<lambda>r. is_text (cell_of r c)) grouped then Inl TypeError
               else Inr \<lparr> columns = ks @ [''mean'', ''sum''],
                          rows = map (\<lambda>k. zip ks k @ [(''mean'', agg_mean (series k)),
                                                       (''sum'', agg_sum (series k))]) gkeys \<rparr>)"

text \<open>\<^verbatim>\<open>df.rename(columns=m, inplace=True)\<close> on the local table of groups.\<close>

definition rename_columns :: "(string \<times> string) list \<Rightarrow> dataframe \<Rightarrow> dataframe" where
  "rename_columns m df =
     (let ren = (\<lambda>c. case map_of m c of None \<Rightarrow> c | Some c' \<Rightarrow> c')
      in \<lparr> columns = map ren (columns df),
           rows = map (map (\<lambda>(c, v). (ren c, v))) (rows df) \<rparr>)"

text \<open>
  \<^verbatim>\<open>pd.merge(left, right, on=ks, how='left')\<close>: every left row, in the left order, once
  per right row with the same key cells, extended by that right row's other columns; a
  left row without a match is kept once, with missing cells under the right columns. A
  column name that both frames have outside the keys gets the suffix \<^verbatim>\<open>_x\<close> on the left
  and \<^verbatim>\<open>_y\<close> on the right.
\<close>

definition merge_left :: "dataframe \<Rightarrow> dataframe \<Rightarrow> string list \<Rightarrow> error + dataframe" where
  "merge_left left right ks =
     (case find (\<lambda>k. k \<notin> set (columns left) \<or> k \<notin> set (columns right)) ks of
        Some k \<Rightarrow> Inl (KeyError k)
      | None \<Rightarrow>
          let extra = filter (\<lambda>c. c \<notin> set ks) (columns right);
              lname = (\<lambda>c. if c \<notin> set ks \<and> c \<in> set extra then c @ ''_x'' else c);
              rname = (\<lambda>c. if c \<in> set (columns left) then c @ ''_y'' else c);
              lpart = (\<lambda>l. map (\<lambda>(c, v). (lname c, v)) l);
              rpart = (\<lambda>r. map (\<lambda>c. (rname c, cell_of r c)) extra);
              unmatched = map (\<lambda>c. (rname c, Null)) extra
          in Inr \<lparr> columns = map lname (columns left) @ map rname extra,
                   rows = concat (map (\<lambda>l.
                            case filter (\<lambda>r. key_cells ks r = key_cells ks l) (rows right) of
                              [] \<Rightarrow> [lpart l @ unmatched]
                            | ms \<Rightarrow> map (\<lambda>r. lpart l @ rpart r) ms) (rows left)) \<rparr>)"

text \<open>\<^verbatim>\<open>x != 0\<close> on one cell: a missing value and a text differ from 0.\<close>

fun ne_zero :: "cell \<Rightarrow> bool" where
  "ne_zero (Num q) = (q \<noteq> 0)"
| "ne_zero c = True"

text \<open>
  \<^verbatim>\<open>a / b\<close> on two cells: a text operand raises TypeError, a zero divisor
  ZeroDivisionError; a missing operand gives a missing quotient.
\<close>

definition truediv :: "cell \<Rightarrow> cell \<Rightarrow> error + cell" where
  "truediv a b =
     (if is_text a \<or> is_text b then Inl TypeError
      else if b = Num 0 then Inl ZeroDivisionError
      else (case (a, b) of (Num n, Num d) \<Rightarrow> Inr (Num (n / d)) | _ \<Rightarrow> Inr Null))"

text \<open>
  The row function of the ratio:
  \<^verbatim>\<open>lambda row: row['Sales'] / row['total_sales_by_group'] if row['total_sales_by_group'] != 0 else 0\<close>.
  The condition is evaluated first.
\<close>

definition sales_ratio_of :: "row \<Rightarrow> error + cell" where
  "sales_ratio_of row =
     (case row_get row ''total_sales_by_group'' of
        Inl e \<Rightarrow> Inl e
      | Inr t \<Rightarrow>
          if ne_zero t then
            (case row_get row ''Sales'' of
               Inl e \<Rightarrow> Inl e
             | Inr s \<Rightarrow>
                 (case row_get row ''total_sales_by_group'' of
                    Inl e \<Rightarrow> Inl e
                  | Inr d \<Rightarrow> truediv s d))
          else Inr (Num 0))"

text \<open>\<^verbatim>\<open>df.apply(f, axis=1)\<close>: the series of \<open>f\<close>'s results, row by row.\<close>

definition apply_rows :: "(row \<Rightarrow> error + cell) \<Rightarrow> dataframe \<Rightarrow> error + cell list" where
  "apply_rows f df = collect (map f (rows df))"

text \<open>
  \<^verbatim>\<open>add_aggregated_features(df)\<close>. The grouping and the join build new frames, and the
  ratio column is assigned to the joined frame: the caller's frame is only read.
\<close>

definition add_aggregated_features :: "dataframe \<Rightarrow> error + dataframe" where
  "add_aggregated_features df =
     (case groupby_agg df [''Country'', ''Segment''] ''Sales'' of
        Inl e \<Rightarrow> Inl e
      | Inr g \<Rightarrow>
          let group_df = rename_columns [(''mean'', ''avg_sales_by_group''),
                                         (''sum'', ''total_sales_by_group'')] g
          in (case merge_left df group_df [''Country'', ''Segment''] of
                Inl e \<Rightarrow> Inl e
              | Inr merged \<Rightarrow>
                  (case apply_rows sales_ratio_of merged of
                     Inl e \<Rightarrow> Inl e
                   | Inr ratios \<Rightarrow> Inr (setitem merged ''sales_ratio'' ratios))))"

section \<open>The dashboard's main function: loading and the pipeline\<close>

text \<open>
  What a run of \<^verbatim>\<open>main()\<close> does that can be observed, in order: the calls into the
  user interface (\<^verbatim>\<open>st.title\<close>, \<^verbatim>\<open>st.subheader\<close>, \<^verbatim>\<open>st.markdown\<close>, \<^verbatim>\<open>st.error\<close>
  with its message) and the start of each pipeline step with the frame it is given.
\<close>

datatype step =
    st_title
  | st_subheader
  | st_markdown
  | st_error string
  | cleaner_called dataframe
  | aggregator_called dataframe
  | presenter_called dataframe

text \<open>An HTTP response, as far as \<^verbatim>\<open>main\<close> reads it.\<close>

record response =
  status_code :: nat
  body_text :: string

text \<open>
  The names bound at module level when \<^verbatim>\<open>main\<close> runs: the three imports
  (\<^verbatim>\<open>import streamlit as st\<close>, \<^verbatim>\<open>import pandas as pd\<close>,
  \<^verbatim>\<open>import plotly.express as px\<close>) and the four functions the file defines. The file
  imports neither \<^verbatim>\<open>requests\<close> nor \<^verbatim>\<open>io\<close>.
\<close>

definition module_names :: "string list" where
  "module_names = [''st'', ''pd'', ''px'', ''load_data'', ''clean_data'',
                   ''add_aggregated_features'', ''main'']"

text \<open>Reading a global name: NameError when nothing is bound to it.\<close>

definition name_lookup :: "string list \<Rightarrow> string \<Rightarrow> error + unit" where
  "name_lookup names n = (if n \<in> set names then Inr () else Inl (NameError n))"

text \<open>\<^verbatim>\<open>response.raise_for_status()\<close>: an HTTPError, which is a RequestException, for a status of 400 and above.\<close>

definition raise_for_status :: "response \<Rightarrow> error + unit" where
  "raise_for_status r =
     (if 400 \<le> status_code r then Inl (RequestException ''HTTPError'') else Inr ())"

text \<open>
  The body of the \<^verbatim>\<open>try\<close>: \<^verbatim>\<open>requests.get(url)\<close>, \<^verbatim>\<open>raise_for_status()\<close>,
  \<^verbatim>\<open>pd.read_excel(io.StringIO(response.text))\<close>. The network's answer to the request
  (a RequestException for a transport failure, or a response) and the parser are
  parameters; the global names are looked up in evaluation order.
\<close>

definition try_body ::
  "string list \<Rightarrow> error + response \<Rightarrow> (string \<Rightarrow> error + dataframe) \<Rightarrow> error + dataframe" where
  "try_body names fetch read_excel =
     (case name_lookup names ''requests'' of
        Inl e \<Rightarrow> Inl e
      | Inr _ \<Rightarrow>
          (case fetch of
             Inl e \<Rightarrow> Inl e
           | Inr resp \<Rightarrow>
               (case raise_for_status resp of
                  Inl e \<Rightarrow> Inl e
                | Inr _ \<Rightarrow>
                    (case name_lookup names ''pd'' of
                       Inl e \<Rightarrow> Inl e
                     | Inr _ \<Rightarrow>
                         (case name_lookup names ''io'' of
                            Inl e \<Rightarrow> Inl e
                          | Inr _ \<Rightarrow> read_excel (body_text resp))))))"

text \<open>
  The \<^verbatim>\<open>try\<close> statement. On an exception Python evaluates the clause's class
  expression \<^verbatim>\<open>requests.exceptions.RequestException\<close>, which itself reads the global
  \<^verbatim>\<open>requests\<close>; a RequestException is then handled by \<^verbatim>\<open>st.error\<close>, and control
  falls through with the local \<^verbatim>\<open>data\<close> unbound (\<open>None\<close> here); any other exception
  propagates.
\<close>

definition load_step ::
  "string list \<Rightarrow> error + response \<Rightarrow> (string \<Rightarrow> error + dataframe)
     \<Rightarrow> step list \<times> (error + dataframe option)" where
  "load_step names fetch read_excel =
     (case try_body names fetch read_excel of
        Inr data \<Rightarrow> ([], Inr (Some data))
      | Inl e \<Rightarrow>
          (case name_lookup names ''requests'' of
             Inl e' \<Rightarrow> ([], Inl e')
           | Inr _ \<Rightarrow>
               (case e of
                  RequestException msg \<Rightarrow> ([st_error (''Error loading data: '' @ msg)], Inr None)
                | _ \<Rightarrow> ([], Inl e))))"

text \<open>
  \<^verbatim>\<open>main()\<close> up to the rendering: the three header calls, the load, then
  \<^verbatim>\<open>data = clean_data(data)\<close> and \<^verbatim>\<open>data = add_aggregated_features(data)\<close>, then the
  rendering calls, which are a parameter. Reading the unbound local \<^verbatim>\<open>data\<close> raises
  UnboundLocalError. The result is the trace of the run and how it ends.
\<close>

definition main ::
  "string list \<Rightarrow> error + response \<Rightarrow> (string \<Rightarrow> error + dataframe)
     \<Rightarrow> (dataframe \<Rightarrow> step list) \<Rightarrow> step list \<times> (error + unit)" where
  "main names fetch read_excel render =
     (let header = [st_title, st_subheader, st_markdown];
          loaded = load_step names fetch read_excel;
          trace = header @ fst loaded
      in case snd loaded of
           Inl e \<Rightarrow> (trace, Inl e)
         | Inr None \<Rightarrow> (trace, Inl (UnboundLocalError ''data''))
         | Inr (Some data) \<Rightarrow>
             (case fst (clean_data data) of
                Inl e \<Rightarrow> (trace @ [cleaner_called data], Inl e)
              | Inr cleaned \<Rightarrow>
                  (case add_aggregated_features cleaned of
                     Inl e \<Rightarrow>
                       (trace @ [cleaner_called data, aggregator_called cleaned], Inl e)
                   | Inr aggregated \<Rightarrow>
                       (trace @ [cleaner_called data, aggregator_called cleaned,
                                 presenter_called aggregated] @ render aggregated, Inr ()))))"

text \<open>The same module with the two missing imports added.\<close>

definition module_names_with_imports :: "string list" where
  "module_names_with_imports = ''requests'' # ''io'' # module_names"

section \<open>The Cleaner's contract, as the specification words it\<close>

text \<open>Step (a) on one Record: a missing measure becomes 0, any other Record is kept as is.\<close>

definition fill_null_measure :: "row \<Rightarrow> row" where
  "fill_null_measure r =
     (if cell_of r ''Sales'' = Null then AList.update ''Sales'' (Num 0) r else r)"

text \<open>Step (b) removes the Records on which this holds: the measure is a number below 0.\<close>

definition negative_measure :: "row \<Rightarrow> bool" where
  "negative_measure r = (case cell_of r ''Sales'' of Num q \<Rightarrow> q < 0 | _ \<Rightarrow> False)"

text \<open>The contract: replace every missing measure with 0, then remove the negative Records.\<close>

definition cleaner_spec :: "dataframe \<Rightarrow> dataframe" where
  "cleaner_spec df =
     \<lparr> columns = columns df,
       rows = filter (\<lambda>r. \<not> negative_measure r) (map fill_null_measure (rows df)) \<rparr>"

text \<open>
  The data model's typing of the measure: numeric, possibly missing on input (never a text).
\<close>

definition measure_typed :: "dataframe \<Rightarrow> bool" where
  "measure_typed df =
     list_all (\<lambda>r. case cell_of r ''Sales'' of Str s \<Rightarrow> False | _ \<Rightarrow> True) (rows df)"

section \<open>Concrete frames\<close>

text \<open>
  The specification's scenario: three Records of group (A, X) with measures missing, -5
  and 10; the frame the Cleaner returns for it; and the same input with only the missing
  measure filled.
\<close>

definition sample_raw :: dataframe where
  "sample_raw =
     \<lparr> columns = [''Sales'', ''Country'', ''Segment''],
       rows = [[(''Sales'', Null), (''Country'', Str ''A''), (''Segment'', Str ''X'')],
               [(''Sales'', Num (- 5)), (''Country'', Str ''A''), (''Segment'', Str ''X'')],
               [(''Sales'', Num 10), (''Country'', Str ''A''), (''Segment'', Str ''X'')]] \<rparr>"

definition sample_cleaned :: dataframe where
  "sample_cleaned =
     \<lparr> columns = [''Sales'', ''Country'', ''Segment''],
       rows = [[(''Sales'', Num 0), (''Country'', Str ''A''), (''Segment'', Str ''X'')],
               [(''Sales'', Num 10), (''Country'', Str ''A''), (''Segment'', Str ''X'')]] \<rparr>"

definition sample_filled :: dataframe where
  "sample_filled =
     \<lparr> columns = [''Sales'', ''Country'', ''Segment''],
       rows = [[(''Sales'', Num 0), (''Country'', Str ''A''), (''Segment'', Str ''X'')],
               [(''Sales'', Num (- 5)), (''Country'', Str ''A''), (''Segment'', Str ''X'')],
               [(''Sales'', Num 10), (''Country'', Str ''A''), (''Segment'', Str ''X'')]] \<rparr>"

section \<open>The Aggregator's contract\<close>

text \<open>The GroupKey of a Record: its (country, segment) pair.\<close>

definition group_key :: "row \<Rightarrow> cell list" where
  "group_key = key_cells [''Country'', ''Segment'']"

text \<open>The Records of a frame that belong to a GroupKey, in the frame's order.\<close>

definition group_rows :: "dataframe \<Rightarrow> cell list \<Rightarrow> row list" where
  "group_rows df k = filter (\<lambda>r. group_key r = k) (rows df)"

text \<open>The keys of the groups of a frame, each once: the keys without a missing cell.\<close>

definition group_keys :: "dataframe \<Rightarrow> cell list list" where
  "group_keys df =
     remdups (map group_key (filter (\<lambda>r. Null \<notin> set (group_key r)) (rows df)))"

text \<open>The measure cells of a group.\<close>

definition group_series :: "dataframe \<Rightarrow> cell list \<Rightarrow> cell list" where
  "group_series df k = map (\<lambda>r. cell_of r ''Sales'') (group_rows df k)"

text \<open>
  GroupStats: mean and sum of the measure over the group of a key. A key with a missing
  cell names no group, and its statistics are missing.
\<close>

definition group_stats :: "dataframe \<Rightarrow> cell list \<Rightarrow> cell \<times> cell" where
  "group_stats df k =
     (if Null \<in> set k then (Null, Null)
      else (agg_mean (group_series df k), agg_sum (group_series df k)))"

text \<open>
  The row of a group in the table of groups: the key cells under the key columns, then
  the mean and the sum under the two given column names.
\<close>

definition group_row :: "dataframe \<Rightarrow> string \<Rightarrow> string \<Rightarrow> cell list \<Rightarrow> row" where
  "group_row df m s k =
     zip [''Country'', ''Segment''] k
     @ [(m, agg_mean (group_series df k)), (s, agg_sum (group_series df k))]"

text \<open>
  The ratio as a total function of (measure, group-sum): 0 for a group-sum of 0, the
  quotient of two numbers otherwise, missing when either is missing.
\<close>

definition ratio_cell :: "cell \<Rightarrow> cell \<Rightarrow> cell" where
  "ratio_cell s t =
     (case t of
        Num d \<Rightarrow> if d = 0 then Num 0 else (case s of Num n \<Rightarrow> Num (n / d) | _ \<Rightarrow> Null)
      | _ \<Rightarrow> Null)"

text \<open>A Record with its group's mean and sum and its own ratio appended, in this order.\<close>

definition aggregated_row :: "dataframe \<Rightarrow> row \<Rightarrow> row" where
  "aggregated_row df r =
     r @ [(''avg_sales_by_group'', fst (group_stats df (group_key r))),
          (''total_sales_by_group'', snd (group_stats df (group_key r))),
          (''sales_ratio'', ratio_cell (cell_of r ''Sales'') (snd (group_stats df (group_key r))))]"

text \<open>Preconditions of the Aggregator: the three required columns are there.\<close>

definition required_columns :: "dataframe \<Rightarrow> bool" where
  "required_columns df \<longleftrightarrow>
     ''Country'' \<in> set (columns df) \<and> ''Segment'' \<in> set (columns df)
     \<and> ''Sales'' \<in> set (columns df)"

text \<open>None of the three columns the Aggregator adds is a column of the frame already.\<close>

definition fresh_columns :: "dataframe \<Rightarrow> bool" where
  "fresh_columns df \<longleftrightarrow>
     ''avg_sales_by_group'' \<notin> set (columns df)
     \<and> ''total_sales_by_group'' \<notin> set (columns df)
     \<and> ''sales_ratio'' \<notin> set (columns df)"

text \<open>The invariant of a cleaned frame: every measure is a number, none below 0.\<close>

definition measure_clean :: "dataframe \<Rightarrow> bool" where
  "measure_clean df =
     list_all (\<lambda>r. case cell_of r ''Sales'' of Num q \<Rightarrow> 0 \<le> q | _ \<Rightarrow> False) (rows df)"

text \<open>Country and segment are present in every Record.\<close>

definition keys_present :: "dataframe \<Rightarrow> bool" where
  "keys_present df = list_all (\<lambda>r. Null \<notin> set (group_key r)) (rows df)"






text \<open>
  A cleaned frame that already has a column named \<^verbatim>\<open>sales_ratio\<close>, and what the
  Aggregator returns for it.
\<close>

definition ratio_frame :: dataframe where
  "ratio_frame =
     \<lparr> columns = [''Sales'', ''Country'', ''Segment'', ''sales_ratio''],
       rows = [[(''Sales'', Num 10), (''Country'', Str ''A''), (''Segment'', Str ''X''),
                (''sales_ratio'', Num 7)]] \<rparr>"

definition ratio_aggregated :: dataframe where
  "ratio_aggregated =
     \<lparr> columns = [''Sales'', ''Country'', ''Segment'', ''sales_ratio'',
                  ''avg_sales_by_group'', ''total_sales_by_group''],
       rows = [[(''Sales'', Num 10), (''Country'', Str ''A''), (''Segment'', Str ''X''),
                (''sales_ratio'', Num 1), (''avg_sales_by_group'', Num 10),
                (''total_sales_by_group'', Num 10)]] \<rparr>"

text \<open>The scenario frame after cleaning and aggregation.\<close>

definition sample_aggregated :: dataframe where
  "sample_aggregated =
     \<lparr> columns = [''Sales'', ''Country'', ''Segment'', ''avg_sales_by_group'',
                  ''total_sales_by_group'', ''sales_ratio''],
       rows = [[(''Sales'', Num 0), (''Country'', Str ''A''), (''Segment'', Str ''X''),
                (''avg_sales_by_group'', Num 5), (''total_sales_by_group'', Num 10),
                (''sales_ratio'', Num 0)],
               [(''Sales'', Num 10), (''Country'', Str ''A''), (''Segment'', Str ''X''),
                (''avg_sales_by_group'', Num 5), (''total_sales_by_group'', Num 10),
                (''sales_ratio'', Num 1)]] \<rparr>"



section \<open>Facts about the operations\<close>

lemma map_zip_map: "map (\<lambda>(r, v). h r v) (zip xs (map g xs)) = map (\<lambda>r. h r (g r)) xs"
  by (induction xs) auto

lemma update_fill:
  "AList.update ''Sales'' (if cell_of r ''Sales'' = Null then Num 0 else cell_of r ''Sales'') r
     = fill_null_measure r"
  by (auto simp: fill_null_measure_def cell_of_def update_triv split: option.splits)

lemma rows_setitem_fillna:
  "rows (setitem df ''Sales'' (fillna (Num 0) (map (\<lambda>r. cell_of r ''Sales'') (rows df))))
     = map fill_null_measure (rows df)"
  by (simp add: setitem_def fillna_def map_zip_map update_fill o_def)

lemma columns_setitem_present: "c \<in> set (columns df) \<Longrightarrow> columns (setitem df c vs) = columns df"
  by (simp add: setitem_def)

lemma cell_of_fill: "cell_of (fill_null_measure r) ''Sales'' = (if cell_of r ''Sales'' = Null then Num 0 else cell_of r ''Sales'')"
  by (simp add: fill_null_measure_def cell_of_def update_conv')

lemma collect_ok: "list_all (\<lambda>x. \<exists>v. f x = Inr v) xs \<Longrightarrow> collect (map f xs) = Inr (map (\<lambda>x. projr (f x)) xs)"
  by (induction xs) auto

lemma collect_map_Inr: "collect (map Inr vs) = Inr vs"
  by (induction vs) auto

lemma collect_Inr_D: "collect xs = Inr vs \<Longrightarrow> xs = map Inr vs"
  by (induction xs arbitrary: vs) (auto split: sum.splits)

lemma filter_zip_map: "map fst (filter snd (zip xs (map p xs))) = filter p xs"
  by (induction xs) auto

lemma clean_data_absent:
  "''Sales'' \<notin> set (columns df) \<Longrightarrow> clean_data df = (Inr df, df)"
  by (simp add: clean_data_def)

lemma setitem_fillna:
  assumes "''Sales'' \<in> set (columns df)"
  shows "setitem df ''Sales'' (fillna (Num 0) (map (\<lambda>r. cell_of r ''Sales'') (rows df)))
           = \<lparr> columns = columns df, rows = map fill_null_measure (rows df) \<rparr>"
  using assms rows_setitem_fillna [of df] by (simp add: setitem_def)

lemma collect_Inl:
  assumes "\<exists>x\<in>set xs. isl x" and "\<forall>x\<in>set xs. isl x \<longrightarrow> x = Inl e"
  shows "collect xs = Inl e"
  using assms
proof (induction xs)
  case Nil
  then show ?case by simp
next
  case (Cons a xs)
  show ?case
  proof (cases a)
    case (Inl e')
    with Cons.prems(2) have "e' = e" by simp
    with Inl show ?thesis by simp
  next
    case (Inr v)
    with Cons.prems have "\<exists>x\<in>set xs. isl x" "\<forall>x\<in>set xs. isl x \<longrightarrow> x = Inl e"
      by auto
    then have "collect xs = Inl e" by (rule Cons.IH)
    with Inr show ?thesis by simp
  qed
qed

lemma ge_zero_fill:
  "ge_zero (cell_of (fill_null_measure r) ''Sales'') =
     (case cell_of r ''Sales'' of Str s \<Rightarrow> Inl TypeError
      | _ \<Rightarrow> Inr (\<not> negative_measure (fill_null_measure r)))"
  by (auto simp: cell_of_fill negative_measure_def split: cell.splits)

lemma series_ge_zero_typed:
  assumes "measure_typed df"
  shows "series_ge_zero (map (\<lambda>r. cell_of r ''Sales'') (map fill_null_measure (rows df)))
           = Inr (map (\<lambda>r. \<not> negative_measure r) (map fill_null_measure (rows df)))"
proof -
  have "map ge_zero (map (\<lambda>r. cell_of r ''Sales'') (map fill_null_measure (rows df)))
          = map Inr (map (\<lambda>r. \<not> negative_measure r) (map fill_null_measure (rows df)))"
    using assms
    by (auto simp: measure_typed_def list_all_iff ge_zero_fill split: cell.splits)
  then show ?thesis
    by (simp only: series_ge_zero_def collect_map_Inr)
qed

lemma series_ge_zero_untyped:
  assumes "\<not> measure_typed df"
  shows "series_ge_zero (map (\<lambda>r. cell_of r ''Sales'') (map fill_null_measure (rows df)))
           = Inl TypeError"
  unfolding series_ge_zero_def
proof (rule collect_Inl)
  from assms obtain r where r: "r \<in> set (rows df)"
      "\<not> (case cell_of r ''Sales'' of Str s \<Rightarrow> False | _ \<Rightarrow> True)"
    by (auto simp: measure_typed_def list_all_iff)
  then obtain s where "cell_of r ''Sales'' = Str s"
    by (cases "cell_of r ''Sales''") auto
  with r(1) show "\<exists>x\<in>set (map ge_zero (map (\<lambda>r. cell_of r ''Sales'') (map fill_null_measure (rows df)))). isl x"
    by (auto simp: ge_zero_fill intro!: bexI [of _ r])
  show "\<forall>x\<in>set (map ge_zero (map (\<lambda>r. cell_of r ''Sales'') (map fill_null_measure (rows df)))).
          isl x \<longrightarrow> x = Inl TypeError"
    by (auto simp: ge_zero_fill split: cell.splits)
qed

lemma clean_data_present:
  assumes "''Sales'' \<in> set (columns df)"
  shows "clean_data df =
           ((if measure_typed df then Inr (cleaner_spec df) else Inl TypeError),
            \<lparr> columns = columns df, rows = map fill_null_measure (rows df) \<rparr>)"
proof (cases "measure_typed df")
  case True
  show ?thesis
    using assms True
    by (simp add: clean_data_def getitem_def setitem_fillna series_ge_zero_typed [OF True]
        boolean_index_def filter_zip_map cleaner_spec_def del: map_map)
next
  case False
  show ?thesis
    using assms False
    by (simp add: clean_data_def getitem_def setitem_fillna series_ge_zero_untyped [OF False]
        del: map_map)
qed

lemma measure_typed_cleaner_spec: "measure_typed df \<Longrightarrow> measure_typed (cleaner_spec df)"
  by (auto simp: measure_typed_def cleaner_spec_def list_all_iff cell_of_fill
      split: cell.splits if_splits)

lemma fill_null_measure_idem: "fill_null_measure (fill_null_measure r) = fill_null_measure r"
  by (simp add: fill_null_measure_def cell_of_def update_conv')

lemma negative_fill: "negative_measure (fill_null_measure r) = negative_measure r"
  by (simp add: negative_measure_def cell_of_fill)

lemma map_fill_filter:
  "map fill_null_measure (filter P (map fill_null_measure xs)) = filter P (map fill_null_measure xs)"
  by (induction xs) (auto simp: fill_null_measure_idem)

lemma cleaner_spec_idem: "cleaner_spec (cleaner_spec df) = cleaner_spec df"
proof -
  have "map fill_null_measure (filter (\<lambda>r. \<not> negative_measure r) (map fill_null_measure (rows df)))
          = filter (\<lambda>r. \<not> negative_measure r) (map fill_null_measure (rows df))"
    by (simp add: map_fill_filter)
  then show ?thesis by (simp add: cleaner_spec_def)
qed

subsection \<open>The Cleaner on the scenario frame\<close>

lemmas eval_defs = clean_data_def getitem_def setitem_def fillna_def series_ge_zero_def
  boolean_index_def cell_of_def row_get_def

lemma clean_data_sample: "clean_data sample_raw = (Inr sample_cleaned, sample_filled)"
  by (simp add: sample_raw_def sample_cleaned_def sample_filled_def eval_defs)

lemma sample_raw_measure: "''Sales'' \<in> set (columns sample_raw)"
  by (simp add: sample_raw_def)

lemma sample_raw_typed: "measure_typed sample_raw"
  by (simp add: sample_raw_def measure_typed_def cell_of_def)

lemma cleaner_spec_sample: "cleaner_spec sample_raw = sample_cleaned"
  by (simp add: sample_raw_def sample_cleaned_def cleaner_spec_def fill_null_measure_def
      negative_measure_def cell_of_def)

section \<open>Properties of the Cleaner\<close>

text \<open>
  C2. On a frame with the measure column (measure cells numeric or missing) the Cleaner
  returns, without an error, the frame of the contract: every missing measure replaced by
  0 first, every Record with a negative measure removed afterwards. In particular a Record
  whose measure was missing is in the result with measure 0, and a Record whose measure
  was negative is not in the result.
\<close>

theorem clean_data_fills_then_filters:
  assumes "''Sales'' \<in> set (columns df)" and "measure_typed df"
  shows "fst (clean_data df) = Inr (cleaner_spec df)
       \<and> (\<forall>r\<in>set (rows df). cell_of r ''Sales'' = Null \<longrightarrow>
            AList.update ''Sales'' (Num 0) r \<in> set (rows (cleaner_spec df))
            \<and> row_get (AList.update ''Sales'' (Num 0) r) ''Sales'' = Inr (Num 0))
       \<and> (\<forall>r\<in>set (rows df). \<forall>q. cell_of r ''Sales'' = Num q \<and> q < 0 \<longrightarrow>
            r \<notin> set (rows (cleaner_spec df)))"
proof (intro conjI ballI allI impI)
  show "fst (clean_data df) = Inr (cleaner_spec df)"
    using assms by (simp add: clean_data_present)
next
  fix r assume r: "r \<in> set (rows df)" "cell_of r ''Sales'' = Null"
  then have "fill_null_measure r = AList.update ''Sales'' (Num 0) r"
    by (simp add: fill_null_measure_def)
  moreover have "\<not> negative_measure (fill_null_measure r)"
    using r(2) by (simp add: negative_measure_def cell_of_fill)
  ultimately show "AList.update ''Sales'' (Num 0) r \<in> set (rows (cleaner_spec df))"
    using r(1) by (force simp: cleaner_spec_def)
  show "row_get (AList.update ''Sales'' (Num 0) r) ''Sales'' = Inr (Num 0)"
    by (simp add: row_get_def update_conv')
next
  fix r q assume "r \<in> set (rows df)" "cell_of r ''Sales'' = Num q \<and> q < 0"
  then have "negative_measure r" by (simp add: negative_measure_def)
  then show "r \<notin> set (rows (cleaner_spec df))"
    by (auto simp: cleaner_spec_def negative_fill)
qed

theorem clean_data_fills_then_filters_witness:
  "''Sales'' \<in> set (columns sample_raw) \<and> measure_typed sample_raw
   \<and> fst (clean_data sample_raw) = Inr sample_cleaned
   \<and> [(''Sales'', Num 0), (''Country'', Str ''A''), (''Segment'', Str ''X'')] \<in> set (rows sample_cleaned)
   \<and> [(''Sales'', Num (- 5)), (''Country'', Str ''A''), (''Segment'', Str ''X'')] \<notin> set (rows sample_cleaned)"
proof -
  note t = clean_data_fills_then_filters [OF sample_raw_measure sample_raw_typed]
  have r1: "[(''Sales'', Null), (''Country'', Str ''A''), (''Segment'', Str ''X'')] \<in> set (rows sample_raw)"
    by (simp add: sample_raw_def)
  have r2: "[(''Sales'', Num (- 5)), (''Country'', Str ''A''), (''Segment'', Str ''X'')] \<in> set (rows sample_raw)"
    by (simp add: sample_raw_def)
  from t have a: "fst (clean_data sample_raw) = Inr sample_cleaned"
    by (simp add: cleaner_spec_sample)
  from t [THEN conjunct2, THEN conjunct1, THEN bspec, OF r1]
  have b: "AList.update ''Sales'' (Num 0) [(''Sales'', Null), (''Country'', Str ''A''), (''Segment'', Str ''X'')]
      \<in> set (rows (cleaner_spec sample_raw))"
    by (simp add: cell_of_def)
  from t [THEN conjunct2, THEN conjunct2, THEN bspec, OF r2]
  have c: "[(''Sales'', Num (- 5)), (''Country'', Str ''A''), (''Segment'', Str ''X'')]
      \<notin> set (rows (cleaner_spec sample_raw))"
    by (simp add: cell_of_def)
  from a b c show ?thesis
    by (simp add: sample_raw_measure sample_raw_typed cleaner_spec_sample)
qed

text \<open>
  C5. In the frame the Cleaner returns for an input with the measure column, every Record
  has a measure, and it is a number greater than or equal to 0 (never missing).
\<close>

theorem cleaned_measure_nonneg:
  assumes "fst (clean_data df) = Inr out" and "''Sales'' \<in> set (columns df)"
  shows "\<forall>r\<in>set (rows out). \<exists>q. row_get r ''Sales'' = Inr (Num q) \<and> 0 \<le> q"
proof
  fix r' assume r': "r' \<in> set (rows out)"
  from assms have typed: "measure_typed df" and out: "out = cleaner_spec df"
    by (auto simp: clean_data_present split: if_splits)
  from r' out obtain r where r: "r \<in> set (rows df)" "r' = fill_null_measure r"
      "\<not> negative_measure r'"
    by (auto simp: cleaner_spec_def)
  from typed r(1) have nostr: "\<And>s. cell_of r ''Sales'' \<noteq> Str s"
    by (auto simp: measure_typed_def list_all_iff split: cell.splits)
  show "\<exists>q. row_get r' ''Sales'' = Inr (Num q) \<and> 0 \<le> q"
  proof (cases "cell_of r ''Sales''")
    case Null
    then show ?thesis
      using r(2) by (simp add: fill_null_measure_def row_get_def update_conv')
  next
    case (Num q)
    then have "map_of r ''Sales'' = Some (Num q)"
      by (auto simp: cell_of_def split: option.splits)
    moreover have "0 \<le> q"
      using r(2,3) Num by (simp add: negative_measure_def cell_of_fill)
    ultimately show ?thesis
      using r(2) Num by (simp add: fill_null_measure_def row_get_def)
  next
    case (Str s)
    with nostr [of s] show ?thesis by simp
  qed
qed

theorem cleaned_measure_nonneg_witness:
  "fst (clean_data sample_raw) = Inr sample_cleaned \<and> ''Sales'' \<in> set (columns sample_raw)
   \<and> (\<exists>q. row_get [(''Sales'', Num 0), (''Country'', Str ''A''), (''Segment'', Str ''X'')] ''Sales''
            = Inr (Num q) \<and> 0 \<le> q)
   \<and> (\<exists>q. row_get [(''Sales'', Num 10), (''Country'', Str ''A''), (''Segment'', Str ''X'')] ''Sales''
            = Inr (Num q) \<and> 0 \<le> q)"
proof -
  have h: "fst (clean_data sample_raw) = Inr sample_cleaned"
    by (simp add: clean_data_sample)
  note t = cleaned_measure_nonneg [OF h sample_raw_measure]
  have r1: "[(''Sales'', Num 0), (''Country'', Str ''A''), (''Segment'', Str ''X'')]
              \<in> set (rows sample_cleaned)"
    by (simp add: sample_cleaned_def)
  have r2: "[(''Sales'', Num 10), (''Country'', Str ''A''), (''Segment'', Str ''X'')]
              \<in> set (rows sample_cleaned)"
    by (simp add: sample_cleaned_def)
  from h sample_raw_measure t [THEN bspec, OF r1] t [THEN bspec, OF r2]
  show ?thesis by blast
qed

text \<open>
  C7. The Cleaner is idempotent: run on a frame it has returned, it returns that same
  frame (and leaves it untouched).
\<close>

theorem clean_data_idempotent:
  assumes "fst (clean_data df) = Inr out"
  shows "clean_data out = (Inr out, out)"
proof (cases "''Sales'' \<in> set (columns df)")
  case False
  with assms have "out = df" by (simp add: clean_data_absent)
  with False show ?thesis by (simp add: clean_data_absent)
next
  case True
  with assms have typed: "measure_typed df" and out: "out = cleaner_spec df"
    by (auto simp: clean_data_present split: if_splits)
  have cols: "''Sales'' \<in> set (columns (cleaner_spec df))"
    using True by (simp add: cleaner_spec_def)
  have same: "\<lparr> columns = columns (cleaner_spec df),
                 rows = map fill_null_measure (rows (cleaner_spec df)) \<rparr> = cleaner_spec df"
    by (simp add: cleaner_spec_def map_fill_filter)
  show ?thesis
    unfolding out
    by (simp add: clean_data_present [OF cols] measure_typed_cleaner_spec [OF typed]
        cleaner_spec_idem same)
qed

theorem clean_data_idempotent_witness:
  "fst (clean_data sample_raw) = Inr sample_cleaned
   \<and> clean_data sample_cleaned = (Inr sample_cleaned, sample_cleaned)"
proof -
  have h: "fst (clean_data sample_raw) = Inr sample_cleaned"
    by (simp add: clean_data_sample)
  from clean_data_idempotent [OF h] h show ?thesis by simp
qed

text \<open>
  C6, as stated, fails: on the scenario frame the caller's frame is not the same after the
  call: its missing measure has been overwritten with 0.
\<close>

theorem clean_data_writes_argument: "snd (clean_data sample_raw) \<noteq> sample_raw"
proof -
  have "snd (clean_data sample_raw) = sample_filled"
    by (simp add: clean_data_sample)
  moreover have "sample_filled \<noteq> sample_raw"
    by (simp add: sample_raw_def sample_filled_def)
  ultimately show ?thesis by simp
qed

text \<open>
  C6, amended. The Cleaner removes no Record from the caller's frame and returns the
  filtered Records as a new frame, but it writes step (a) into the caller's frame: after
  the call the caller's frame has every missing measure replaced by 0, with its columns,
  its other cells and the number and order of its Records as before. The caller's frame is
  unchanged when the measure column is absent or no measure is missing.
\<close>

theorem clean_data_argument_after:
  "snd (clean_data df) =
     (if ''Sales'' \<in> set (columns df)
      then \<lparr> columns = columns df, rows = map fill_null_measure (rows df) \<rparr>
      else df)
   \<and> length (rows (snd (clean_data df))) = length (rows df)
   \<and> ((\<forall>r\<in>set (rows df). cell_of r ''Sales'' \<noteq> Null) \<longrightarrow> snd (clean_data df) = df)"
proof -
  have a: "snd (clean_data df) =
     (if ''Sales'' \<in> set (columns df)
      then \<lparr> columns = columns df, rows = map fill_null_measure (rows df) \<rparr>
      else df)"
    by (simp add: clean_data_present clean_data_absent)
  have b: "map fill_null_measure (rows df) = rows df"
    if "\<forall>r\<in>set (rows df). cell_of r ''Sales'' \<noteq> Null"
    using that by (simp add: fill_null_measure_def map_idI)
  show ?thesis
    using a b by auto
qed

theorem clean_data_argument_after_witness:
  "snd (clean_data sample_raw) = sample_filled
   \<and> length (rows (snd (clean_data sample_raw))) = length (rows sample_raw)
   \<and> list_all (\<lambda>r. cell_of r ''Sales'' \<noteq> Null) (rows sample_cleaned)
   \<and> snd (clean_data sample_cleaned) = sample_cleaned"
proof -
  have h: "list_all (\<lambda>r. cell_of r ''Sales'' \<noteq> Null) (rows sample_cleaned)"
    by (simp add: sample_cleaned_def cell_of_def)
  have a: "snd (clean_data sample_raw) = sample_filled"
    by (simp add: clean_data_sample)
  have l: "length (rows (snd (clean_data sample_raw))) = length (rows sample_raw)"
    using clean_data_argument_after [of sample_raw] by blast
  from h have hb: "\<forall>r\<in>set (rows sample_cleaned). cell_of r ''Sales'' \<noteq> Null"
    by (simp add: list_all_iff)
  have c: "snd (clean_data sample_cleaned) = sample_cleaned"
    using clean_data_argument_after [of sample_cleaned] hb by blast
  from a l h c show ?thesis by blast
qed

text \<open>
  C8. A frame whose columns do not include \<^verbatim>\<open>Sales\<close> passes through the Cleaner
  unchanged: the call returns the frame it was given, raises nothing and leaves the
  caller's frame as it was.
\<close>

theorem clean_data_without_measure:
  assumes "''Sales'' \<notin> set (columns df)"
  shows "clean_data df = (Inr df, df)"
  using assms by (simp add: clean_data_def)

theorem clean_data_without_measure_witness:
  "''Sales'' \<notin> set (columns \<lparr> columns = [''Country'', ''Segment''],
        rows = [[(''Country'', Str ''A''), (''Segment'', Str ''X'')]] \<rparr>)
   \<and> clean_data \<lparr> columns = [''Country'', ''Segment''],
        rows = [[(''Country'', Str ''A''), (''Segment'', Str ''X'')]] \<rparr>
     = (Inr \<lparr> columns = [''Country'', ''Segment''],
        rows = [[(''Country'', Str ''A''), (''Segment'', Str ''X'')]] \<rparr>,
        \<lparr> columns = [''Country'', ''Segment''],
        rows = [[(''Country'', Str ''A''), (''Segment'', Str ''X'')]] \<rparr>)"
proof -
  have h: "''Sales'' \<notin> set (columns \<lparr> columns = [''Country'', ''Segment''],
        rows = [[(''Country'', Str ''A''), (''Segment'', Str ''X'')]] \<rparr>)"
    by simp
  show ?thesis using h clean_data_without_measure [OF h] by simp
qed
section \<open>Facts about the Aggregator\<close>

lemma map_zip_maps:
  "map (\<lambda>(r, v). h r v) (zip (map f xs) (map g xs)) = map (\<lambda>x. h (f x) (g x)) xs"
  by (induction xs) auto

lemma update_fresh: "k \<notin> fst ` set al \<Longrightarrow> AList.update k v al = al @ [(k, v)]"
  by (induction al) auto

lemma filter_eq_distinct:
  "distinct xs \<Longrightarrow> filter (\<lambda>y. y = x) xs = (if x \<in> set xs then [x] else [])"
  by (induction xs) auto

lemma wf_row_keys: "wf_frame df \<Longrightarrow> r \<in> set (rows df) \<Longrightarrow> map fst r = columns df"
  by (simp add: wf_frame_def list_all_iff)

lemma wf_row_get:
  assumes "wf_frame df" "r \<in> set (rows df)" "c \<in> set (columns df)"
  shows "map_of r c = Some (cell_of r c)"
proof -
  from assms have "c \<in> fst ` set r"
    using wf_row_keys [OF assms(1,2)] by (metis set_map)
  then obtain v where "map_of r c = Some v"
    by (metis domD dom_map_of_conv_image_fst)
  then show ?thesis by (simp add: cell_of_def)
qed

lemma numbers_no_text: "numbers cs = [q. Num q \<leftarrow> cs]"
  by (induction cs rule: numbers.induct) auto

lemma group_keys_iff:
  "k \<in> set (group_keys df) \<longleftrightarrow> (\<exists>r\<in>set (rows df). group_key r = k) \<and> Null \<notin> set k"
  by (auto simp: group_keys_def)

lemma distinct_group_keys: "distinct (group_keys df)"
  by (simp add: group_keys_def)

lemma group_key_cells: "group_key r = [cell_of r ''Country'', cell_of r ''Segment'']"
  by (simp add: group_key_def key_cells_def)

lemma is_text_iff: "is_text c \<longleftrightarrow> (\<exists>s. c = Str s)"
  by (cases c) auto

lemma typed_no_text:
  "measure_typed df \<Longrightarrow> r \<in> set (rows df) \<Longrightarrow> \<not> is_text (cell_of r ''Sales'')"
  by (auto simp: measure_typed_def list_all_iff is_text_iff split: cell.splits)

lemma groupby_agg_ok:
  assumes "required_columns df" and "measure_typed df"
  shows "groupby_agg df [''Country'', ''Segment''] ''Sales'' =
           Inr \<lparr> columns = [''Country'', ''Segment'', ''mean'', ''sum''],
                 rows = map (group_row df ''mean'' ''sum'') (group_keys df) \<rparr>"
proof -
  let ?grouped = "filter (\<lambda>r. Null \<notin> set (group_key r)) (rows df)"
  let ?series = "\<lambda>k. map (\<lambda>r. cell_of r ''Sales'') (filter (\<lambda>r. group_key r = k) ?grouped)"
  have notext: "\<not> list_ex (\<lambda>r. is_text (cell_of r ''Sales'')) ?grouped"
    using typed_no_text [OF assms(2)] by (auto simp: list_ex_iff)
  have ser: "?series k = group_series df k" if "k \<in> set (group_keys df)" for k
  proof -
    from that have "Null \<notin> set k" by (simp add: group_keys_iff)
    then have "filter (\<lambda>r. group_key r = k) ?grouped = group_rows df k"
      by (auto simp: group_rows_def intro: filter_cong)
    then show ?thesis by (simp only: group_series_def)
  qed
  have rws: "map (\<lambda>k. zip [''Country'', ''Segment''] k @
                 [(''mean'', agg_mean (?series k)), (''sum'', agg_sum (?series k))])
               (group_keys df)
             = map (group_row df ''mean'' ''sum'') (group_keys df)"
    by (rule map_cong [OF refl]) (simp only: ser group_row_def)
  have find_none: "find (\<lambda>k. k \<notin> set (columns df)) [''Country'', ''Segment''] = None"
    using assms(1) by (simp add: required_columns_def)
  have sales: "''Sales'' \<in> set (columns df)"
    using assms(1) by (simp add: required_columns_def)
  have step: "groupby_agg df [''Country'', ''Segment''] ''Sales'' =
           Inr \<lparr> columns = [''Country'', ''Segment'', ''mean'', ''sum''],
                 rows = map (\<lambda>k. zip [''Country'', ''Segment''] k @
                 [(''mean'', agg_mean (?series k)), (''sum'', agg_sum (?series k))])
               (group_keys df) \<rparr>"
    using assms(1) notext
    by (simp add: groupby_agg_def required_columns_def group_key_def group_keys_def Let_def
        del: filter_filter)
  show ?thesis by (simp only: step rws)
qed

lemma rename_group_row:
  "map (\<lambda>(c, v). ((case map_of [(''mean'', ''avg_sales_by_group''),
                                    (''sum'', ''total_sales_by_group'')] c of
                        None \<Rightarrow> c | Some c' \<Rightarrow> c'), v))
     (group_row df ''mean'' ''sum'' k)
   = group_row df ''avg_sales_by_group'' ''total_sales_by_group'' k"
  by (cases k; cases "tl k") (auto simp: group_row_def)

lemma rename_group_df:
  "rename_columns [(''mean'', ''avg_sales_by_group''), (''sum'', ''total_sales_by_group'')]
     \<lparr> columns = [''Country'', ''Segment'', ''mean'', ''sum''],
       rows = map (group_row df ''mean'' ''sum'') (group_keys df) \<rparr>
   = \<lparr> columns = [''Country'', ''Segment'', ''avg_sales_by_group'', ''total_sales_by_group''],
       rows = map (group_row df ''avg_sales_by_group'' ''total_sales_by_group'') (group_keys df) \<rparr>"
proof -
  let ?ren = "\<lambda>c. case map_of [(''mean'', ''avg_sales_by_group''),
                                   (''sum'', ''total_sales_by_group'')] c of
                     None \<Rightarrow> c | Some c' \<Rightarrow> c'"
  have cols: "map ?ren [''Country'', ''Segment'', ''mean'', ''sum'']
                = [''Country'', ''Segment'', ''avg_sales_by_group'', ''total_sales_by_group'']"
    by simp
  have rws: "map (map (\<lambda>(c, v). (?ren c, v))) (map (group_row df ''mean'' ''sum'') (group_keys df))
               = map (group_row df ''avg_sales_by_group'' ''total_sales_by_group'') (group_keys df)"
    by (simp only: map_map o_def rename_group_row)
  show ?thesis
    unfolding rename_columns_def Let_def dataframe.select_convs cols rws ..
qed

lemma concat_map_single: "concat (map (\<lambda>x. [f x]) xs) = map f xs"
  by (induction xs) auto

lemma merge_left_no_clash:
  assumes keys_left: "set ks \<subseteq> set (columns left)"
    and keys_right: "set ks \<subseteq> set (columns right)"
    and no_clash: "\<forall>c\<in>set (columns right). c \<notin> set ks \<longrightarrow> c \<notin> set (columns left)"
    and labels: "\<forall>l\<in>set (rows left). fst ` set l \<subseteq> set (columns left)"
  shows "merge_left left right ks =
     Inr \<lparr> columns = columns left @ filter (\<lambda>c. c \<notin> set ks) (columns right),
           rows = concat (map (\<lambda>l.
                    case filter (\<lambda>r. key_cells ks r = key_cells ks l) (rows right) of
                      [] \<Rightarrow> [l @ map (\<lambda>c. (c, Null)) (filter (\<lambda>c. c \<notin> set ks) (columns right))]
                    | ms \<Rightarrow> map (\<lambda>r. l @ map (\<lambda>c. (c, cell_of r c))
                                          (filter (\<lambda>c. c \<notin> set ks) (columns right))) ms)
                  (rows left)) \<rparr>"
proof -
  let ?extra = "filter (\<lambda>c. c \<notin> set ks) (columns right)"
  let ?lname = "\<lambda>c. if c \<notin> set ks \<and> c \<in> set ?extra then c @ ''_x'' else c"
  let ?rname = "\<lambda>c. if c \<in> set (columns left) then c @ ''_y'' else c"
  have none: "find (\<lambda>k. k \<notin> set (columns left) \<or> k \<notin> set (columns right)) ks = None"
    using keys_left keys_right by (auto simp: find_None_iff)
  have lname: "?lname c = c" if "c \<in> set (columns left)" for c
    using that no_clash by auto
  have rname: "?rname c = c" if "c \<in> set ?extra" for c
    using that no_clash by auto
  have lcols: "map ?lname (columns left) = columns left"
    by (rule map_idI) (rule lname)
  have rcols: "map ?rname ?extra = ?extra"
    by (rule map_idI) (rule rname)
  have unm: "map (\<lambda>c. (?rname c, Null)) ?extra = map (\<lambda>c. (c, Null)) ?extra"
    by (rule map_cong [OF refl]) (simp only: rname)
  have rpart: "map (\<lambda>c. (?rname c, cell_of r c)) ?extra = map (\<lambda>c. (c, cell_of r c)) ?extra" for r
    by (rule map_cong [OF refl]) (simp only: rname)
  have lpart: "map (\<lambda>(c, v). (?lname c, v)) l = l" if "l \<in> set (rows left)" for l
  proof (rule map_idI)
    fix p assume p_in: "p \<in> set l"
    obtain c v where p: "p = (c, v)" by (cases p)
    with p_in that labels have "c \<in> set (columns left)" by force
    from lname [OF this] show "(case p of (c, v) \<Rightarrow> (?lname c, v)) = p"
      by (simp add: p)
  qed
  have rws: "map (\<lambda>l. case filter (\<lambda>r. key_cells ks r = key_cells ks l) (rows right) of
                 [] \<Rightarrow> [map (\<lambda>(c, v). (?lname c, v)) l @ map (\<lambda>c. (?rname c, Null)) ?extra]
               | ms \<Rightarrow> map (\<lambda>r. map (\<lambda>(c, v). (?lname c, v)) l
                                @ map (\<lambda>c. (?rname c, cell_of r c)) ?extra) ms) (rows left)
           = map (\<lambda>l. case filter (\<lambda>r. key_cells ks r = key_cells ks l) (rows right) of
                 [] \<Rightarrow> [l @ map (\<lambda>c. (c, Null)) ?extra]
               | ms \<Rightarrow> map (\<lambda>r. l @ map (\<lambda>c. (c, cell_of r c)) ?extra) ms) (rows left)"
    by (rule map_cong [OF refl]) (simp only: lpart unm rpart)
  show ?thesis
    unfolding merge_left_def none Let_def option.case
    by (simp only: lcols rcols rws)
qed

lemma group_row_key:
  assumes "k \<in> set (group_keys df)"
  shows "group_key (group_row df ''avg_sales_by_group'' ''total_sales_by_group'' k) = k"
proof -
  from assms obtain r where "k = group_key r" by (auto simp: group_keys_iff)
  then show ?thesis
    by (simp add: group_key_cells group_row_def cell_of_def)
qed

lemma group_row_stats:
  assumes "Null \<notin> set (group_key l)"
  shows "map (\<lambda>c. (c, cell_of (group_row df ''avg_sales_by_group'' ''total_sales_by_group''
                                 (group_key l)) c))
           [''avg_sales_by_group'', ''total_sales_by_group'']
         = [(''avg_sales_by_group'', fst (group_stats df (group_key l))),
            (''total_sales_by_group'', snd (group_stats df (group_key l)))]"
  using assms by (simp add: group_stats_def group_key_cells group_row_def cell_of_def)

lemma matching_group_rows:
  assumes "l \<in> set (rows df)"
  shows "filter (\<lambda>r. group_key r = group_key l)
           (map (group_row df ''avg_sales_by_group'' ''total_sales_by_group'') (group_keys df))
         = (if Null \<in> set (group_key l) then []
            else [group_row df ''avg_sales_by_group'' ''total_sales_by_group'' (group_key l)])"
proof -
  let ?grow = "group_row df ''avg_sales_by_group'' ''total_sales_by_group''"
  have "filter (\<lambda>k. group_key (?grow k) = group_key l) (group_keys df)
          = filter (\<lambda>k. k = group_key l) (group_keys df)"
    by (rule filter_cong [OF refl]) (simp add: group_row_key)
  also have "\<dots> = (if group_key l \<in> set (group_keys df) then [group_key l] else [])"
    by (rule filter_eq_distinct) (rule distinct_group_keys)
  also have "group_key l \<in> set (group_keys df) \<longleftrightarrow> Null \<notin> set (group_key l)"
    using assms by (auto simp: group_keys_iff)
  finally show ?thesis
    by (simp add: filter_map o_def)
qed

lemma merge_group_df:
  assumes "wf_frame df" and "required_columns df" and "fresh_columns df"
  shows "merge_left df
           \<lparr> columns = [''Country'', ''Segment'', ''avg_sales_by_group'', ''total_sales_by_group''],
             rows = map (group_row df ''avg_sales_by_group'' ''total_sales_by_group'') (group_keys df) \<rparr>
           [''Country'', ''Segment'']
         = Inr \<lparr> columns = columns df @ [''avg_sales_by_group'', ''total_sales_by_group''],
                 rows = map (\<lambda>l. l @ [(''avg_sales_by_group'', fst (group_stats df (group_key l))),
                                      (''total_sales_by_group'', snd (group_stats df (group_key l)))])
                          (rows df) \<rparr>"
proof -
  let ?G = "\<lparr> columns = [''Country'', ''Segment'', ''avg_sales_by_group'', ''total_sales_by_group''],
             rows = map (group_row df ''avg_sales_by_group'' ''total_sales_by_group'') (group_keys df) \<rparr>"
  let ?ks = "[''Country'', ''Segment'']"
  have extra: "filter (\<lambda>c. c \<notin> set ?ks) (columns ?G)
                 = [''avg_sales_by_group'', ''total_sales_by_group'']"
    by simp
  have 1: "set ?ks \<subseteq> set (columns df)"
    using assms(2) by (simp add: required_columns_def)
  have 2: "set ?ks \<subseteq> set (columns ?G)" by simp
  have 3: "\<forall>c\<in>set (columns ?G). c \<notin> set ?ks \<longrightarrow> c \<notin> set (columns df)"
    using assms(3) by (simp add: fresh_columns_def)
  have 4: "\<forall>l\<in>set (rows df). fst ` set l \<subseteq> set (columns df)"
    using wf_row_keys [OF assms(1)] by (metis set_map subset_refl)
  have each: "(case filter (\<lambda>r. key_cells ?ks r = key_cells ?ks l) (rows ?G) of
                 [] \<Rightarrow> [l @ map (\<lambda>c. (c, Null)) [''avg_sales_by_group'', ''total_sales_by_group'']]
               | ms \<Rightarrow> map (\<lambda>r. l @ map (\<lambda>c. (c, cell_of r c))
                                 [''avg_sales_by_group'', ''total_sales_by_group'']) ms)
              = [l @ [(''avg_sales_by_group'', fst (group_stats df (group_key l))),
                      (''total_sales_by_group'', snd (group_stats df (group_key l)))]]"
    if "l \<in> set (rows df)" for l
  proof (cases "Null \<in> set (group_key l)")
    case True
    then show ?thesis
      using matching_group_rows [OF that]
      by (simp add: group_key_def [symmetric] group_stats_def)
  next
    case False
    then show ?thesis
      using matching_group_rows [OF that] group_row_stats [OF False, of df]
      by (simp add: group_key_def [symmetric])
  qed
  have "merge_left df ?G ?ks =
     Inr \<lparr> columns = columns df @ [''avg_sales_by_group'', ''total_sales_by_group''],
           rows = concat (map (\<lambda>l.
                    case filter (\<lambda>r. key_cells ?ks r = key_cells ?ks l) (rows ?G) of
                      [] \<Rightarrow> [l @ map (\<lambda>c. (c, Null)) [''avg_sales_by_group'', ''total_sales_by_group'']]
                    | ms \<Rightarrow> map (\<lambda>r. l @ map (\<lambda>c. (c, cell_of r c))
                                          [''avg_sales_by_group'', ''total_sales_by_group'']) ms)
                  (rows df)) \<rparr>"
    using merge_left_no_clash [OF 1 2 3 4] by (simp only: extra)
  also have "map (\<lambda>l.
                    case filter (\<lambda>r. key_cells ?ks r = key_cells ?ks l) (rows ?G) of
                      [] \<Rightarrow> [l @ map (\<lambda>c. (c, Null)) [''avg_sales_by_group'', ''total_sales_by_group'']]
                    | ms \<Rightarrow> map (\<lambda>r. l @ map (\<lambda>c. (c, cell_of r c))
                                          [''avg_sales_by_group'', ''total_sales_by_group'']) ms)
                  (rows df)
           = map (\<lambda>l. [l @ [(''avg_sales_by_group'', fst (group_stats df (group_key l))),
                      (''total_sales_by_group'', snd (group_stats df (group_key l)))]]) (rows df)"
    by (rule map_cong [OF refl]) (rule each)
  finally show ?thesis
    by (simp only: concat_map_single)
qed

lemma sales_ratio_of_row:
  assumes "map_of row ''total_sales_by_group'' = Some t" and "map_of row ''Sales'' = Some s"
    and "\<not> is_text s" and "\<not> is_text t"
  shows "sales_ratio_of row = Inr (ratio_cell s t)"
  using assms
  by (cases s; cases t)
     (simp_all add: sales_ratio_of_def row_get_def truediv_def ratio_cell_def)

lemma group_stats_no_text: "\<not> is_text (snd (group_stats df k))"
  by (simp add: group_stats_def agg_sum_def)

lemma sales_ratio_of_merged:
  assumes "wf_frame df" and "required_columns df" and "fresh_columns df"
    and "measure_typed df" and "l \<in> set (rows df)"
  shows "sales_ratio_of
           (l @ [(''avg_sales_by_group'', fst (group_stats df (group_key l))),
                 (''total_sales_by_group'', snd (group_stats df (group_key l)))])
         = Inr (ratio_cell (cell_of l ''Sales'') (snd (group_stats df (group_key l))))"
proof (rule sales_ratio_of_row)
  have keys: "map fst l = columns df"
    using assms(1,5) by (rule wf_row_keys)
  have "''total_sales_by_group'' \<notin> set (columns df)"
    using assms(3) by (simp add: fresh_columns_def)
  then have "''total_sales_by_group'' \<notin> set (map fst l)"
    by (simp add: keys)
  then have "''total_sales_by_group'' \<notin> fst ` set l"
    by simp
  then have "map_of l ''total_sales_by_group'' = None"
    by (simp add: map_of_eq_None_iff)
  then show "map_of (l @ [(''avg_sales_by_group'', fst (group_stats df (group_key l))),
                 (''total_sales_by_group'', snd (group_stats df (group_key l)))])
               ''total_sales_by_group'' = Some (snd (group_stats df (group_key l)))"
    by (simp add: map_add_def)
  have "map_of l ''Sales'' = Some (cell_of l ''Sales'')"
    using assms(1,5) assms(2) by (simp add: wf_row_get required_columns_def)
  then show "map_of (l @ [(''avg_sales_by_group'', fst (group_stats df (group_key l))),
                 (''total_sales_by_group'', snd (group_stats df (group_key l)))])
               ''Sales'' = Some (cell_of l ''Sales'')"
    by (simp add: map_add_def)
  show "\<not> is_text (cell_of l ''Sales'')"
    using assms(4,5) by (rule typed_no_text)
  show "\<not> is_text (snd (group_stats df (group_key l)))"
    by (rule group_stats_no_text)
qed

lemma update_ratio_merged:
  assumes "wf_frame df" and "fresh_columns df" and "l \<in> set (rows df)"
  shows "AList.update ''sales_ratio'' v (l @ [(''avg_sales_by_group'', m), (''total_sales_by_group'', t)])
         = l @ [(''avg_sales_by_group'', m), (''total_sales_by_group'', t), (''sales_ratio'', v)]"
proof -
  have keys: "map fst l = columns df"
    using assms(1,3) by (rule wf_row_keys)
  have "''sales_ratio'' \<notin> set (columns df)"
    using assms(2) by (simp add: fresh_columns_def)
  then have "''sales_ratio'' \<notin> set (map fst l)"
    by (simp add: keys)
  then have "''sales_ratio'' \<notin> fst ` set l"
    by simp
  then have "''sales_ratio'' \<notin> fst ` set (l @ [(''avg_sales_by_group'', m), (''total_sales_by_group'', t)])"
    by simp
  then show ?thesis
    by (simp add: update_fresh)
qed

lemma add_aggregated_features_rows:
  assumes wf: "wf_frame df" and req: "required_columns df" and fresh: "fresh_columns df"
    and typed: "measure_typed df"
  shows "add_aggregated_features df =
           Inr \<lparr> columns = columns df @ [''avg_sales_by_group'', ''total_sales_by_group'', ''sales_ratio''],
                 rows = map (aggregated_row df) (rows df) \<rparr>"
proof -
  let ?join = "\<lambda>l. l @ [(''avg_sales_by_group'', fst (group_stats df (group_key l))),
                          (''total_sales_by_group'', snd (group_stats df (group_key l)))]"
  let ?ratio = "\<lambda>l. ratio_cell (cell_of l ''Sales'') (snd (group_stats df (group_key l)))"
  let ?merged = "\<lparr> columns = columns df @ [''avg_sales_by_group'', ''total_sales_by_group''],
                   rows = map ?join (rows df) \<rparr>"
  have "map sales_ratio_of (map ?join (rows df)) = map Inr (map ?ratio (rows df))"
    using sales_ratio_of_merged [OF wf req fresh typed] by simp
  then have ratios: "apply_rows sales_ratio_of ?merged = Inr (map ?ratio (rows df))"
    by (simp only: apply_rows_def dataframe.select_convs collect_map_Inr)
  have "''sales_ratio'' \<notin> set (columns ?merged)"
    using fresh by (simp add: fresh_columns_def)
  moreover have "map (\<lambda>l. AList.update ''sales_ratio'' (?ratio l) (?join l)) (rows df)
                   = map (aggregated_row df) (rows df)"
    by (rule map_cong [OF refl])
       (simp add: update_ratio_merged [OF wf fresh] aggregated_row_def)
  ultimately have set: "setitem ?merged ''sales_ratio'' (map ?ratio (rows df)) =
      \<lparr> columns = columns df @ [''avg_sales_by_group'', ''total_sales_by_group'', ''sales_ratio''],
        rows = map (aggregated_row df) (rows df) \<rparr>"
    by (simp add: setitem_def map_zip_maps)
  show ?thesis
    unfolding add_aggregated_features_def
    by (simp only: groupby_agg_ok [OF req typed] rename_group_df merge_group_df [OF wf req fresh]
        ratios set sum.case Let_def)
qed










subsection \<open>The Aggregator on concrete frames\<close>

lemmas aggregator_eval = cell_of_def row_get_def add_aggregated_features_def groupby_agg_def
  rename_columns_def merge_left_def sales_ratio_of_def apply_rows_def key_cells_def
  agg_sum_def agg_mean_def truediv_def setitem_def

lemma aggregate_sample: "add_aggregated_features sample_cleaned = Inr sample_aggregated"
  by (simp add: sample_cleaned_def sample_aggregated_def aggregator_eval)


lemma aggregate_ratio_frame: "add_aggregated_features ratio_frame = Inr ratio_aggregated"
  by (simp add: ratio_frame_def ratio_aggregated_def aggregator_eval)


subsection \<open>Group statistics of a cleaned frame\<close>


lemma numbers_all_num: "numbers (map Num qs) = qs"
  by (induction qs) auto



lemma wf_aggregated:
  assumes "wf_frame df" and "fresh_columns df"
  shows "wf_frame \<lparr> columns = columns df @ [''avg_sales_by_group'', ''total_sales_by_group'',
                                           ''sales_ratio''],
                   rows = map (aggregated_row df) (rows df) \<rparr>"
  using assms
  by (auto simp: wf_frame_def fresh_columns_def list_all_iff aggregated_row_def)

lemma take_aggregated_row:
  assumes "wf_frame df" and "r \<in> set (rows df)"
  shows "take (length (columns df)) (aggregated_row df r) = r"
proof -
  have "length r = length (columns df)"
    using wf_row_keys [OF assms] by (metis length_map)
  then show ?thesis by (simp add: aggregated_row_def)
qed


lemma sample_cleaned_facts:
  "wf_frame sample_cleaned" "required_columns sample_cleaned" "fresh_columns sample_cleaned"
  "measure_clean sample_cleaned" "measure_typed sample_cleaned" "keys_present sample_cleaned"
  by (simp_all add: sample_cleaned_def wf_frame_def required_columns_def fresh_columns_def
      measure_clean_def measure_typed_def keys_present_def group_key_def key_cells_def cell_of_def)



subsection \<open>No division error\<close>








subsection \<open>The ratios of a group\<close>














section \<open>Properties of the Aggregator\<close>




text \<open>
  C10, as stated, fails: this frame has the required columns and a column
  \<^verbatim>\<open>sales_ratio\<close>; the Aggregator overwrites that column (7 becomes 1) and adds two
  columns, not three.
\<close>

theorem aggregator_overwrites_ratio_column:
  "required_columns ratio_frame
   \<and> add_aggregated_features ratio_frame = Inr ratio_aggregated
   \<and> length (columns ratio_aggregated) = length (columns ratio_frame) + 2
   \<and> cell_of (hd (rows ratio_frame)) ''sales_ratio'' = Num 7
   \<and> cell_of (hd (rows ratio_aggregated)) ''sales_ratio'' = Num 1"
  by (simp add: aggregate_ratio_frame)
     (simp add: ratio_frame_def ratio_aggregated_def required_columns_def cell_of_def)

text \<open>
  C10, amended. For every frame with the required columns, a measure that is numeric or
  missing, and no column yet named \<^verbatim>\<open>avg_sales_by_group\<close>,
  \<^verbatim>\<open>total_sales_by_group\<close> or \<^verbatim>\<open>sales_ratio\<close>, the Aggregator returns a frame with
  the same number of Records in the same order, each Record keeping all its cells, and
  with exactly these three columns added after the input's columns.
\<close>

theorem aggregator_frame:
  assumes "wf_frame df" and "required_columns df" and "fresh_columns df"
    and "measure_typed df"
  shows "\<exists>out. add_aggregated_features df = Inr out
           \<and> columns out = columns df @ [''avg_sales_by_group'', ''total_sales_by_group'',
                                          ''sales_ratio'']
           \<and> wf_frame out
           \<and> length (rows out) = length (rows df)
           \<and> map (take (length (columns df))) (rows out) = rows df"
proof -
  let ?out = "\<lparr> columns = columns df @ [''avg_sales_by_group'', ''total_sales_by_group'',
                                        ''sales_ratio''],
                rows = map (aggregated_row df) (rows df) \<rparr>"
  have "add_aggregated_features df = Inr ?out"
    using assms by (rule add_aggregated_features_rows)
  moreover have "wf_frame ?out"
    using assms(1,3) by (rule wf_aggregated)
  moreover have "map (take (length (columns df))) (rows ?out) = rows df"
    by (simp add: o_def take_aggregated_row [OF assms(1)] map_idI)
  ultimately show ?thesis by simp
qed

theorem aggregator_frame_witness:
  "wf_frame sample_cleaned \<and> required_columns sample_cleaned \<and> fresh_columns sample_cleaned
   \<and> measure_typed sample_cleaned
   \<and> add_aggregated_features sample_cleaned = Inr sample_aggregated
   \<and> columns sample_aggregated
       = columns sample_cleaned @ [''avg_sales_by_group'', ''total_sales_by_group'', ''sales_ratio'']
   \<and> wf_frame sample_aggregated
   \<and> length (rows sample_aggregated) = length (rows sample_cleaned)
   \<and> map (take (length (columns sample_cleaned))) (rows sample_aggregated) = rows sample_cleaned"
proof -
  from aggregator_frame [OF sample_cleaned_facts(1,2,3,5)]
  obtain out where out: "add_aggregated_features sample_cleaned = Inr out"
    and rest: "columns out
       = columns sample_cleaned @ [''avg_sales_by_group'', ''total_sales_by_group'', ''sales_ratio'']"
      "wf_frame out" "length (rows out) = length (rows sample_cleaned)"
      "map (take (length (columns sample_cleaned))) (rows out) = rows sample_cleaned"
    by blast
  from out have "out = sample_aggregated"
    by (simp add: aggregate_sample)
  with out rest sample_cleaned_facts show ?thesis
    by simp
qed





section \<open>Properties of the load step\<close>

lemma requests_unbound: "name_lookup module_names ''requests'' = Inl (NameError ''requests'')"
  by (simp add: name_lookup_def module_names_def)

text \<open>
  C1. The run of the program as written, whatever the network answers (an unreachable
  source included): reading the name \<^verbatim>\<open>requests\<close> raises NameError inside the
  \<^verbatim>\<open>try\<close>, the \<^verbatim>\<open>except\<close> clause cannot match it, and the run ends with that
  NameError after the three header calls. No \<^verbatim>\<open>st.error\<close> is emitted; no frame is
  produced and no pipeline step starts.
\<close>

theorem main_load_failure_unreported:
  "main module_names fetch read_excel render
     = ([st_title, st_subheader, st_markdown], Inl (NameError ''requests''))"
  by (simp add: main_def load_step_def try_body_def requests_unbound)

text \<open>
  With \<^verbatim>\<open>requests\<close> and \<^verbatim>\<open>io\<close> imported, a failed fetch is reported by
  \<^verbatim>\<open>st.error\<close>; the run then ends at \<^verbatim>\<open>clean_data(data)\<close> with UnboundLocalError,
  before any pipeline step starts.
\<close>

lemma main_with_imports_reports_failure:
  "main module_names_with_imports (Inl (RequestException msg)) read_excel render
     = ([st_title, st_subheader, st_markdown, st_error (''Error loading data: '' @ msg)],
        Inl (UnboundLocalError ''data''))"
  by (simp add: main_def load_step_def try_body_def name_lookup_def module_names_with_imports_def)

lemma main_with_imports_bad_status:
  assumes "400 \<le> status_code resp"
  shows "main module_names_with_imports (Inr resp) read_excel render
     = ([st_title, st_subheader, st_markdown, st_error ''Error loading data: HTTPError''],
        Inl (UnboundLocalError ''data''))"
  using assms
  by (simp add: main_def load_step_def try_body_def name_lookup_def raise_for_status_def
      module_names_with_imports_def)


end
